theory Spec2Isabelle
  imports
    Complex_Main
    "HOL-Library.Word"
    "HOL-Library.Char_ord"
    "HOL-Library.List_Lexorder"
    "HOL-Library.Sublist"
begin

unbundle bit_operations_syntax

chapter \<open>The logical-disk collector of windows_exporter\<close>

text \<open>
  A shallow embedding of \<^verbatim>\<open>internal/collector/logical_disk/logical_disk.go\<close>:
  \<^verbatim>\<open>getVolumeInfo\<close>, the mount-point resolution loop of \<^verbatim>\<open>getAllMountedVolumes\<close>,
  the request handling of \<^verbatim>\<open>workerBitlocker\<close> and the BitLocker part of \<^verbatim>\<open>Collect\<close>.
  Calls into Windows are parameters of the model (records of functions); every call
  made is written to a log, so that a statement about which call was made with which
  argument is a statement about the log. Strings are byte lists, as Go strings are.
\<close>

section \<open>Go values: errors, panics\<close>

text \<open>
  An \<^verbatim>\<open>error\<close> is either an error number of the operating system (with the text
  its \<^verbatim>\<open>Error()\<close> method prints) or the result of \<^verbatim>\<open>fmt.Errorf\<close>: the formatted
  text up to the verb \<^verbatim>\<open>%w\<close>, and the wrapped error when the format has one.
\<close>

datatype error = Errno nat string | Errorf string "error option"

fun Error :: "error \<Rightarrow> string" where
  "Error (Errno code text) = text"
| "Error (Errorf text None) = text"
| "Error (Errorf text (Some cause)) = text @ Error cause"

fun errors_Is :: "error \<Rightarrow> nat \<Rightarrow> bool" where
  "errors_Is (Errno code text) target = (code = target)"
| "errors_Is (Errorf text None) target = False"
| "errors_Is (Errorf text (Some cause)) target = errors_Is cause target"

text \<open>A Go function either returns or panics.\<close>

datatype 'a outcome = Return 'a | Panic string

section \<open>Constants of \<^verbatim>\<open>golang.org/x/sys/windows\<close>\<close>

definition ERROR_FILE_NOT_FOUND :: nat where "ERROR_FILE_NOT_FOUND = 2"
definition ERROR_NO_MORE_FILES :: nat where "ERROR_NO_MORE_FILES = 18"
definition MAX_PATH :: nat where "MAX_PATH = 260"

definition DRIVE_UNKNOWN :: "32 word" where "DRIVE_UNKNOWN = 0"
definition DRIVE_NO_ROOT_DIR :: "32 word" where "DRIVE_NO_ROOT_DIR = 1"
definition DRIVE_REMOVABLE :: "32 word" where "DRIVE_REMOVABLE = 2"
definition DRIVE_FIXED :: "32 word" where "DRIVE_FIXED = 3"
definition DRIVE_REMOTE :: "32 word" where "DRIVE_REMOTE = 4"
definition DRIVE_CDROM :: "32 word" where "DRIVE_CDROM = 5"
definition DRIVE_RAMDISK :: "32 word" where "DRIVE_RAMDISK = 6"

definition FILE_READ_ONLY_VOLUME :: "32 word" where "FILE_READ_ONLY_VOLUME = 0x00080000"

section \<open>Functions of the Go standard library\<close>

definition backslash :: char where "backslash = CHR 0x5C"

text \<open>The Go raw string literals \<^verbatim>\<open>`\\?\`\<close> and \<^verbatim>\<open>`\\.\`\<close>.\<close>

definition guidPrefix :: string where
  "guidPrefix = [backslash, backslash, CHR ''?'', backslash]"

definition devicePrefix :: string where
  "devicePrefix = [backslash, backslash, CHR ''.'', backslash]"

definition strings_CutPrefix :: "string \<Rightarrow> string \<Rightarrow> string \<times> bool" where
  "strings_CutPrefix s pre =
     (if prefix pre s then (drop (length pre) s, True) else (s, False))"

fun strings_Contains :: "string \<Rightarrow> string \<Rightarrow> bool" where
  "strings_Contains [] substr = (substr = [])"
| "strings_Contains (c # s) substr = (prefix substr (c # s) \<or> strings_Contains s substr)"

fun strings_Join :: "string list \<Rightarrow> string \<Rightarrow> string" where
  "strings_Join [] sep = []"
| "strings_Join [e] sep = e"
| "strings_Join (e # es) sep = e @ sep @ strings_Join es sep"

definition strings_TrimSuffix :: "string \<Rightarrow> string \<Rightarrow> string" where
  "strings_TrimSuffix s suf =
     (if suffix suf s then take (length s - length suf) s else s)"

definition digits :: string where "digits = ''0123456789ABCDEF''"

text \<open>\<^verbatim>\<open>strconv.FormatUint(n, 10)\<close>.\<close>

function FormatUint :: "nat \<Rightarrow> string" where
  "FormatUint n =
     (if n < 10 then [digits ! n] else FormatUint (n div 10) @ [digits ! (n mod 10)])"
  by pat_completeness auto
termination
  by (relation "measure id") auto

declare FormatUint.simps [simp del]

text \<open>The value of a decimal digit, to read a decimal text back.\<close>

fun digitValue :: "char \<Rightarrow> nat" where
  "digitValue c = of_char c - 48"

text \<open>\<^verbatim>\<open>fmt.Sprintf("%X", n)\<close> for an unsigned \<open>n\<close>.\<close>

function FormatHex :: "nat \<Rightarrow> string" where
  "FormatHex n =
     (if n < 16 then [digits ! n] else FormatHex (n div 16) @ [digits ! (n mod 16)])"
  by pat_completeness auto
termination
  by (relation "measure id") auto

declare FormatHex.simps [simp del]

text \<open>
  \<^verbatim>\<open>binary.LittleEndian.Uint32(b)\<close>: it panics on a slice shorter than four bytes.
\<close>

definition Uint32 :: "8 word list \<Rightarrow> 32 word option" where
  "Uint32 b =
     (if length b < 4 then None
      else Some (ucast (b ! 0) OR push_bit 8 (ucast (b ! 1))
                 OR push_bit 16 (ucast (b ! 2)) OR push_bit 24 (ucast (b ! 3))))"

text \<open>The slice expression \<^verbatim>\<open>b[lo:]\<close>: it panics when \<open>lo\<close> is beyond the length.\<close>

definition sliceFrom :: "'a list \<Rightarrow> nat \<Rightarrow> 'a list option" where
  "sliceFrom b lo = (if lo \<le> length b then Some (drop lo b) else None)"

text \<open>
  \<^verbatim>\<open>slices.Sort\<close> on strings orders them by \<^verbatim>\<open><\<close>, byte by byte, a proper prefix
  first: the order of \<^typ>\<open>char list\<close> here. The sorted arrangement of a list under a
  linear order is unique, so the (unstable) algorithm of the library does not matter.
  \<^verbatim>\<open>slices.Compact\<close> replaces runs of equal elements by one of them.
\<close>

definition slices_Sort :: "string list \<Rightarrow> string list" where
  "slices_Sort xs = sort xs"

definition slices_Compact :: "string list \<Rightarrow> string list" where
  "slices_Compact xs = remdups_adj xs"

text \<open>
  \<^verbatim>\<open>windows.StringToUTF16Ptr\<close> panics on a string with a NUL byte. The model hands
  the string itself to the operating system.
\<close>

definition StringToUTF16Ptr :: "string \<Rightarrow> string option" where
  "StringToUTF16Ptr s = (if CHR 0x00 \<in> set s then None else Some s)"

section \<open>\<^verbatim>\<open>getVolumeInfo\<close>\<close>

record volumeInfo =
  diskIDs :: string
  filesystem :: string
  serialNumber :: string
  label :: string
  volumeType :: string
  readonly :: real

text \<open>The zero value \<^verbatim>\<open>volumeInfo{}\<close>.\<close>

definition volumeInfo_zero :: volumeInfo where
  "volumeInfo_zero =
     \<lparr>diskIDs = [], filesystem = [], serialNumber = [], label = [], volumeType = [],
      readonly = 0\<rparr>"

text \<open>
  What \<^verbatim>\<open>windows.GetVolumeInformation\<close> stores through its pointers on success; the
  two buffers of UTF-16 units are given as the Go strings \<^verbatim>\<open>windows.UTF16PtrToString\<close>
  makes of them.
\<close>

record volume_information =
  volBufLabel :: string
  volSerialNum :: "32 word"
  fsFlags :: "32 word"
  volBufType :: string

text \<open>
  The operating system, as far as \<^verbatim>\<open>getVolumeInfo\<close> calls it. \<^verbatim>\<open>DeviceIoControl\<close>
  answers with the bytes it stores at the start of the output buffer.
\<close>

record os =
  os_CreateFile :: "string \<Rightarrow> error + nat"
  os_DeviceIoControl :: "nat \<Rightarrow> error + 8 word list"
  os_GetDriveType :: "string \<Rightarrow> 32 word"
  os_GetVolumeInformation :: "string \<Rightarrow> error + volume_information"

datatype os_call =
    CallCreateFile string
  | CallDeviceIoControl nat
  | CallGetDriveType string
  | CallGetVolumeInformation string
  | CallClose nat

fun getDriveType :: "32 word \<Rightarrow> string" where
  "getDriveType driveType =
     (if driveType = DRIVE_UNKNOWN then ''unknown''
      else if driveType = DRIVE_NO_ROOT_DIR then ''norootdir''
      else if driveType = DRIVE_REMOVABLE then ''removable''
      else if driveType = DRIVE_FIXED then ''fixed''
      else if driveType = DRIVE_REMOTE then ''remote''
      else if driveType = DRIVE_CDROM then ''cdrom''
      else if driveType = DRIVE_RAMDISK then ''ramdisk''
      else ''unknown'')"

definition diskExtentSize :: nat where "diskExtentSize = 24"

text \<open>
  \<^verbatim>\<open>make([]byte, 16*1024)\<close> after \<^verbatim>\<open>DeviceIoControl\<close> has stored \<open>written\<close> in it.
\<close>

definition volumeDiskExtents :: "8 word list \<Rightarrow> 8 word list" where
  "volumeDiskExtents written =
     take (16 * 1024) (written @ replicate (16 * 1024 - length written) 0)"

text \<open>
  Lines 582 to 590: the volume path is the request, or the GUID path of the mount map
  without the prefix \<^verbatim>\<open>\\?\\<close>.
\<close>

definition volumePath :: "(string \<rightharpoonup> string) \<Rightarrow> string \<Rightarrow> string" where
  "volumePath volumes rootDrive =
     (case volumes rootDrive of
        Some volumeGUID \<Rightarrow> fst (strings_CutPrefix volumeGUID guidPrefix)
      | None \<Rightarrow> rootDrive)"

text \<open>Lines 632 to 636.\<close>

definition volumeInformationRootDrive :: "string \<Rightarrow> string" where
  "volumeInformationRootDrive vp =
     (if strings_Contains vp ''Volume'' then guidPrefix @ (vp @ [backslash])
      else vp @ [backslash])"

text \<open>
  One round of the loop of lines 625 to 627, the decimal text of the disk number of
  extent \<open>i\<close>: \<^verbatim>\<open>strconv.FormatUint(uint64(binary.LittleEndian.Uint32(
  volumeDiskExtents[8+i*diskExtentSize:])), 10)\<close>. \<open>None\<close> is a panic (slice bounds
  out of range, or index out of range inside \<^verbatim>\<open>Uint32\<close>). The index \<open>i\<close> is a
  \<^verbatim>\<open>uint\<close> below \<open>2 ^ 32\<close>; with 64 bits \<open>8 + i * 24\<close> does not wrap.
\<close>

definition diskIDAt :: "8 word list \<Rightarrow> nat \<Rightarrow> string option" where
  "diskIDAt buf i =
     (case sliceFrom buf (8 + i * diskExtentSize) of
        None \<Rightarrow> None
      | Some b \<Rightarrow> map_option (\<lambda>w. FormatUint (unat w)) (Uint32 b))"

fun collectDiskIDs :: "8 word list \<Rightarrow> nat list \<Rightarrow> string list option" where
  "collectDiskIDs buf [] = Some []"
| "collectDiskIDs buf (i # is) =
     (case diskIDAt buf i of
        None \<Rightarrow> None
      | Some s \<Rightarrow> map_option ((#) s) (collectDiskIDs buf is))"

text \<open>Lines 632 to 666: drive type and volume information of the root path.\<close>

definition volumeQuery ::
  "os \<Rightarrow> string \<Rightarrow> string list \<Rightarrow> (volumeInfo \<times> error option) outcome \<times> os_call list"
where
  "volumeQuery sys vp ids =
     (let root = volumeInformationRootDrive vp in
      case StringToUTF16Ptr root of
        None \<Rightarrow> (Panic ''StringToUTF16Ptr: string with NUL passed'', [])
      | Some rootPtr \<Rightarrow>
          (let driveType = os_GetDriveType sys rootPtr;
               calls = [CallGetDriveType rootPtr, CallGetVolumeInformation rootPtr]
           in case os_GetVolumeInformation sys rootPtr of
                Inl err \<Rightarrow>
                  if driveType = DRIVE_CDROM \<or> driveType = DRIVE_REMOVABLE
                  then (Return (volumeInfo_zero, None), calls)
                  else (Return (volumeInfo_zero,
                          Some (Errorf (''could not get volume information for '' @ root @ '': '')
                                  (Some err))), calls)
              | Inr vi \<Rightarrow>
                  (Return
                     (\<lparr>diskIDs = strings_Join ids '';'',
                       filesystem = volBufType vi,
                       serialNumber = FormatHex (unat (volSerialNum vi)),
                       label = volBufLabel vi,
                       volumeType = getDriveType driveType,
                       readonly = real (unat (fsFlags vi AND FILE_READ_ONLY_VOLUME))\<rparr>,
                      None), calls)))"

text \<open>
  Lines 608 to 630, with the volume open, and then the above. The count is read from
  the first four bytes; \<^verbatim>\<open>make([]string, numDiskIDs)\<close> is taken to succeed, and a
  count of more extents than the buffer holds ends in the panic of the loop.
\<close>

definition extentsQuery ::
  "os \<Rightarrow> string \<Rightarrow> string \<Rightarrow> nat \<Rightarrow> (volumeInfo \<times> error option) outcome \<times> os_call list"
where
  "extentsQuery sys rootDrive vp volumeHandle =
     (case os_DeviceIoControl sys volumeHandle of
        Inl err \<Rightarrow>
          (Return (volumeInfo_zero,
             Some (Errorf (''could not identify physical drive for '' @ rootDrive @ '': '')
                     (Some err))),
           [CallDeviceIoControl volumeHandle])
      | Inr written \<Rightarrow>
          (let buf = volumeDiskExtents written in
           case Uint32 buf of
             None \<Rightarrow> (Panic ''index out of range'', [CallDeviceIoControl volumeHandle])
           | Some count \<Rightarrow>
               (let numDiskIDs = unat count in
                if numDiskIDs < 1
                then (Return (volumeInfo_zero,
                        Some (Errorf (''could not identify physical drive for '' @ rootDrive
                                        @ '': no disk IDs returned'') None)),
                      [CallDeviceIoControl volumeHandle])
                else (case collectDiskIDs buf [0..<numDiskIDs] of
                        None \<Rightarrow>
                          (Panic ''slice bounds out of range'',
                           [CallDeviceIoControl volumeHandle])
                      | Some ids \<Rightarrow>
                          (let (r, calls) =
                                 volumeQuery sys vp (slices_Compact (slices_Sort ids))
                           in (r, CallDeviceIoControl volumeHandle # calls))))))"

text \<open>
  The function: it opens the volume, and the deferred \<^verbatim>\<open>windows.Close\<close> runs when
  the rest returns or panics.
\<close>

definition getVolumeInfo ::
  "os \<Rightarrow> (string \<rightharpoonup> string) \<Rightarrow> string
     \<Rightarrow> (volumeInfo \<times> error option) outcome \<times> os_call list"
where
  "getVolumeInfo sys volumes rootDrive =
     (let vp = volumePath volumes rootDrive in
      case StringToUTF16Ptr (devicePrefix @ vp) of
        None \<Rightarrow> (Panic ''StringToUTF16Ptr: string with NUL passed'', [])
      | Some volumePathPtr \<Rightarrow>
          (case os_CreateFile sys volumePathPtr of
             Inl err \<Rightarrow>
               (Return (volumeInfo_zero,
                  Some (Errorf (''could not open volume for '' @ rootDrive @ '': '') (Some err))),
                [CallCreateFile volumePathPtr])
           | Inr volumeHandle \<Rightarrow>
               (let (r, calls) = extentsQuery sys rootDrive vp volumeHandle
                in (r, CallCreateFile volumePathPtr # calls @ [CallClose volumeHandle]))))"

section \<open>Mount-point resolution in \<^verbatim>\<open>getAllMountedVolumes\<close>\<close>

text \<open>
  The inner loop of lines 699 to 717 for one volume GUID. How
  \<^verbatim>\<open>GetVolumePathNamesForVolumeName\<close> answers is a parameter: a function of the number
  of the call (0 for the first), the capacity of the buffer handed over, in 16-bit units,
  and the length declared for it. An answer holds the error (if any), the value stored in
  \<^verbatim>\<open>rootPathLen\<close> and the units stored at the start of the buffer.
\<close>

record pathnames_reply =
  reply_err :: "error option"
  reply_len :: "32 word"
  reply_data :: "16 word list"

type_synonym pathnames_os = "nat \<Rightarrow> nat \<Rightarrow> 32 word \<Rightarrow> pathnames_reply"

record pathnames_call =
  call_capacity :: nat
  call_length :: "32 word"

text \<open>
  How the loop is left: by \<^verbatim>\<open>break\<close> (with the buffer and the last error; no error is
  the resolved volume, \<^verbatim>\<open>ERROR_FILE_NOT_FOUND\<close> the volume that is not mounted), by
  \<^verbatim>\<open>return nil, err\<close>, or by the panic of \<^verbatim>\<open>&rootPathBuf[0]\<close> on an empty slice.
\<close>

datatype loop_exit =
    Break "16 word list" "error option"
  | ReturnError error
  | IndexPanic

text \<open>\<^verbatim>\<open>rootPathBufLen := uint32(len(rootPathBuf) * 2)\<close>, computed once, before the loop.\<close>

definition rootPathBufLen :: "32 word" where
  "rootPathBufLen = of_nat ((MAX_PATH + 1) * 2)"

definition stored :: "16 word list \<Rightarrow> 16 word list \<Rightarrow> 16 word list" where
  "stored buf units = take (length buf) units @ drop (length units) buf"

text \<open>
  The loop has no bound in the source: it goes round for as long as the answer is
  \<^verbatim>\<open>ERROR_NO_MORE_FILES\<close>. \<open>None\<close> is the loop that never ends.
\<close>

partial_function (option) resolveLoop ::
  "pathnames_os \<Rightarrow> nat \<Rightarrow> 16 word list \<Rightarrow> pathnames_call list
     \<Rightarrow> (loop_exit \<times> pathnames_call list) option"
where
  "resolveLoop sys n rootPathBuf calls =
     (if rootPathBuf = [] then Some (IndexPanic, calls)
      else
        (let reply = sys n (length rootPathBuf) rootPathBufLen;
             calls' = calls @ [\<lparr>call_capacity = length rootPathBuf,
                                 call_length = rootPathBufLen\<rparr>];
             buf' = stored rootPathBuf (reply_data reply)
         in case reply_err reply of
              None \<Rightarrow> Some (Break buf' None, calls')
            | Some e \<Rightarrow>
                if errors_Is e ERROR_FILE_NOT_FOUND then Some (Break buf' (Some e), calls')
                else if errors_Is e ERROR_NO_MORE_FILES
                then resolveLoop sys (Suc n)
                       (replicate (unat ((reply_len reply + 1) div 2)) 0) calls'
                else Some (ReturnError (Errorf ''GetVolumePathNamesForVolumeName: '' (Some e)),
                           calls')))"

definition resolveMountPoints ::
  "pathnames_os \<Rightarrow> (loop_exit \<times> pathnames_call list) option"
where
  "resolveMountPoints sys = resolveLoop sys 0 (replicate (MAX_PATH + 1) 0) []"


section \<open>\<^verbatim>\<open>workerBitlocker\<close>\<close>

text \<open>
  The shell, as far as the worker calls it: \<^verbatim>\<open>SHCreateItemFromParsingName\<close> answers
  with an item, \<^verbatim>\<open>GetProperty\<close> with the field \<^verbatim>\<open>Val\<close> (an \<^verbatim>\<open>int64\<close>) of the
  variant, and \<^verbatim>\<open>Clear\<close> of the variant with an error or none.
\<close>

record shell =
  sh_SHCreateItemFromParsingName :: "string \<Rightarrow> error + nat"
  sh_GetProperty :: "nat \<Rightarrow> error + 64 word"
  sh_Clear :: "64 word \<Rightarrow> error option"

datatype shell_call =
    CallSHCreateItemFromParsingName string
  | CallGetProperty nat
  | CallClear "64 word"
  | CallRelease nat

text \<open>The value sent on \<^verbatim>\<open>bitlockerResCh\<close>: the struct of \<^verbatim>\<open>err\<close> and \<^verbatim>\<open>status\<close>.\<close>

record bitlockerRes =
  res_err :: "error option"
  res_status :: int

text \<open>The function literal of lines 835 to 850; \<^verbatim>\<open>item.Release\<close> is deferred.\<close>

definition queryStatus :: "shell \<Rightarrow> string \<Rightarrow> (int \<times> error option) \<times> shell_call list" where
  "queryStatus sh path =
     (case sh_SHCreateItemFromParsingName sh path of
        Inl e \<Rightarrow>
          ((- 1, Some (Errorf ''SHCreateItemFromParsingName failed: '' (Some e))),
           [CallSHCreateItemFromParsingName path])
      | Inr item \<Rightarrow>
          (case sh_GetProperty sh item of
             Inl e \<Rightarrow>
               ((- 1, Some (Errorf ''GetProperty failed: '' (Some e))),
                [CallSHCreateItemFromParsingName path, CallGetProperty item, CallRelease item])
           | Inr v \<Rightarrow>
               ((sint v, sh_Clear sh v),
                [CallSHCreateItemFromParsingName path, CallGetProperty item, CallClear v,
                 CallRelease item])))"

text \<open>Lines 826 to 855: what the worker does with one request.\<close>

definition handleRequest :: "shell \<Rightarrow> string \<Rightarrow> bitlockerRes \<times> shell_call list" where
  "handleRequest sh path =
     (if \<not> strings_Contains path '':'' then (\<lparr>res_err = None, res_status = - 1\<rparr>, [])
      else
        (let ((s, e), calls) = queryStatus sh path
         in (\<lparr>res_err = e, res_status = s\<rparr>, calls)))"

text \<open>
  The loop of lines 817 to 857 over what the \<^verbatim>\<open>select\<close> receives: the context is done,
  the request channel is closed, or a request arrives. It answers every request in turn.
\<close>

datatype event = Done | Closed | Request string

fun workerLoop :: "shell \<Rightarrow> event list \<Rightarrow> bitlockerRes list \<times> shell_call list" where
  "workerLoop sh [] = ([], [])"
| "workerLoop sh (Done # evs) = ([], [])"
| "workerLoop sh (Closed # evs) = ([], [])"
| "workerLoop sh (Request path # evs) =
     (let (r, calls) = handleRequest sh path;
          (rs, calls') = workerLoop sh evs
      in (r # rs, calls @ calls'))"

section \<open>The BitLocker metrics of \<^verbatim>\<open>Collect\<close>\<close>

record metric =
  metric_name :: string
  metric_value :: real
  metric_labels :: "string list"

definition bitlockerStates :: "string list" where
  "bitlockerStates =
     [''disabled'', ''on'', ''off'', ''encrypting'', ''decrypting'', ''suspended'', ''locked'',
      ''unknown'', ''waiting_for_activation'']"

text \<open>
  Lines 520 to 549: nothing is sent after an error or for the status \<open>-1\<close>; otherwise
  one metric for each state, in the order of the slice.
\<close>

definition bitlockerMetrics :: "string \<Rightarrow> bitlockerRes \<Rightarrow> metric list" where
  "bitlockerMetrics volume r =
     (if res_err r \<noteq> None then []
      else if res_status r = - 1 then []
      else map (\<lambda>(i, state).
                  \<lparr>metric_name = ''bitlocker_status'',
                   metric_value = (if res_status r = int i then 1 else 0),
                   metric_labels = [volume, state]\<rparr>)
             (enumerate 0 bitlockerStates))"

section \<open>Reading a buffer as the specification describes it\<close>

text \<open>
  The little-endian 32-bit number in the four bytes from offset \<open>off\<close>, written as
  arithmetic on the bytes.
\<close>

definition le32At :: "8 word list \<Rightarrow> nat \<Rightarrow> nat" where
  "le32At buf off =
     unat (buf ! off) + 256 * unat (buf ! (off + 1)) + 65536 * unat (buf ! (off + 2))
       + 16777216 * unat (buf ! (off + 3))"

text \<open>The disk numbers of the first \<open>n\<close> extents, at the offsets \<open>8 + 24 * i\<close>.\<close>

definition diskNumbers :: "8 word list \<Rightarrow> nat \<Rightarrow> nat list" where
  "diskNumbers buf n = map (\<lambda>i. le32At buf (8 + 24 * i)) [0..<n]"

section \<open>Example inputs\<close>

text \<open>
  A response of \<^verbatim>\<open>IOCTL_VOLUME_GET_VOLUME_DISK_EXTENTS\<close> for small disk numbers: the
  count, four bytes of padding, and 24 bytes for each extent, the disk number first.
\<close>

definition extentRecord :: "8 word \<Rightarrow> 8 word list" where
  "extentRecord d = [d, 0, 0, 0] @ replicate 20 0"

definition extentsBuffer :: "8 word list \<Rightarrow> 8 word list" where
  "extentsBuffer ds = [of_nat (length ds), 0, 0, 0, 0, 0, 0, 0] @ concat (map extentRecord ds)"

definition example_information :: volume_information where
  "example_information =
     \<lparr>volBufLabel = ''System'', volSerialNum = 0xC0FFEE, fsFlags = 0x00080003,
      volBufType = ''NTFS''\<rparr>"

definition example_os :: "8 word list \<Rightarrow> 32 word \<Rightarrow> error + volume_information \<Rightarrow> os" where
  "example_os written driveType info =
     \<lparr>os_CreateFile = (\<lambda>p. Inr 7),
      os_DeviceIoControl = (\<lambda>h. Inr written),
      os_GetDriveType = (\<lambda>p. driveType),
      os_GetVolumeInformation = (\<lambda>p. info)\<rparr>"

text \<open>A volume GUID path as \<^verbatim>\<open>getAllMountedVolumes\<close> stores it, without the last separator.\<close>

definition example_guid :: string where
  "example_guid = guidPrefix @ ''Volume{abc}''"


definition example_shell :: "error + nat \<Rightarrow> error + 64 word \<Rightarrow> shell" where
  "example_shell item v =
     \<lparr>sh_SHCreateItemFromParsingName = (\<lambda>p. item),
      sh_GetProperty = (\<lambda>i. v),
      sh_Clear = (\<lambda>v. None)\<rparr>"

chapter \<open>Properties\<close>

section \<open>Library functions\<close>

lemma strings_Contains_char: "strings_Contains s [c] \<longleftrightarrow> c \<in> set s"
  by (induction s) auto

lemma strings_Contains_append: "strings_Contains (xs @ substr @ ys) substr"
proof (induction xs)
  case Nil
  show ?case
  proof (cases "substr @ ys")
    case Nil
    then show ?thesis by simp
  next
    case (Cons a as)
    have "prefix substr (substr @ ys)" by simp
    with Cons show ?thesis by simp
  qed
next
  case (Cons x xs)
  then show ?case by simp
qed

lemma strings_Contains_sublist: "strings_Contains s substr \<longleftrightarrow> sublist substr s"
  by (induction s) (auto simp: sublist_Cons_right)

subsection \<open>Words, sorting\<close>

lemma ucast_or_eq_add:
  fixes a b c d :: "8 word"
  shows "(ucast a :: 32 word) OR push_bit 8 (ucast b) OR push_bit 16 (ucast c) OR push_bit 24 (ucast d)
    = ucast a + (push_bit 8 (ucast b) + (push_bit 16 (ucast c) + push_bit 24 (ucast d)))"
proof -
  have 1: "push_bit 16 (ucast c) + push_bit 24 (ucast d)
      = (push_bit 16 (ucast c) OR push_bit 24 (ucast d) :: 32 word)"
    by (rule disjunctive_add) (auto simp: bit_simps dest: bit_imp_le_length)
  have 2: "push_bit 8 (ucast b) + (push_bit 16 (ucast c) OR push_bit 24 (ucast d))
      = (push_bit 8 (ucast b) OR push_bit 16 (ucast c) OR push_bit 24 (ucast d) :: 32 word)"
    by (rule disjunctive_add) (auto simp: bit_simps dest: bit_imp_le_length)
  have 3: "ucast a + (push_bit 8 (ucast b) OR push_bit 16 (ucast c) OR push_bit 24 (ucast d))
      = (ucast a OR push_bit 8 (ucast b) OR push_bit 16 (ucast c) OR push_bit 24 (ucast d) :: 32 word)"
    by (rule disjunctive_add) (auto simp: bit_simps dest: bit_imp_le_length)
  show ?thesis by (simp only: 1 2 3)
qed

lemma unat_byte: "unat (b :: 8 word) < 256"
  using unsigned_less [of b] by simp

lemma unat_bytes_le32:
  fixes a b c d :: "8 word"
  shows "unat ((ucast a :: 32 word) OR push_bit 8 (ucast b) OR push_bit 16 (ucast c) OR push_bit 24 (ucast d))
    = unat a + 256 * unat b + 65536 * unat c + 16777216 * unat d"
proof -
  have "(ucast a :: 32 word) + (push_bit 8 (ucast b) + (push_bit 16 (ucast c) + push_bit 24 (ucast d)))
     = of_nat (unat a + 256 * unat b + 65536 * unat c + 16777216 * unat d)"
    by (simp add: push_bit_eq_mult)
  moreover have "unat a + 256 * unat b + 65536 * unat c + 16777216 * unat d < 2 ^ 32"
    using unat_byte [of a] unat_byte [of b] unat_byte [of c] unat_byte [of d] by simp
  ultimately show ?thesis
    by (simp add: ucast_or_eq_add unat_of_nat del: of_nat_add of_nat_mult)
qed

lemma Uint32_drop:
  assumes "off + 4 \<le> length buf"
  shows "map_option unat (Uint32 (drop off buf)) = Some (le32At buf off)"
  using assms by (simp add: Uint32_def le32At_def unat_bytes_le32 add.commute)

lemma le32At_less: "le32At buf off < 2 ^ 32"
  using unat_byte [of "buf ! off"] unat_byte [of "buf ! (off + 1)"]
    unat_byte [of "buf ! (off + 2)"] unat_byte [of "buf ! (off + 3)"]
  by (simp add: le32At_def)

lemma distinct_remdups_adj_sorted:
  "sorted (xs :: 'a :: linorder list) \<Longrightarrow> distinct (remdups_adj xs)"
  by (induction xs rule: remdups_adj.induct) auto

lemma slices_Compact_Sort: "slices_Compact (slices_Sort xs) = sorted_list_of_set (set xs)"
proof -
  have "sorted (remdups_adj (sort xs))"
    by (simp add: sorted_remdups_adj)
  moreover have "distinct (remdups_adj (sort xs))"
    by (simp add: distinct_remdups_adj_sorted)
  moreover have "set (remdups_adj (sort xs)) = set xs"
    by simp
  ultimately show ?thesis
    unfolding slices_Compact_def slices_Sort_def
    by (metis sorted_list_of_set.idem_if_sorted_distinct)
qed

lemma bit_push_bit_19: "bit (push_bit 19 (1::32 word)) n \<longleftrightarrow> n = 19"
proof -
  have "bit (push_bit 19 (1::32 word)) n
          \<longleftrightarrow> (19 \<le> n \<and> possible_bit TYPE(32 word) n \<and> n - 19 = 0)"
    by (simp only: bit_push_bit_iff bit_1_iff)
  also have "\<dots> \<longleftrightarrow> n = 19"
    by (auto simp: possible_bit_word)
  finally show ?thesis .
qed

lemma and_push_bit_19:
  "(w :: 32 word) AND push_bit 19 1 = (if bit w 19 then push_bit 19 1 else 0)"
proof (rule bit_eqI)
  fix n
  have eq: "bit (w AND push_bit 19 1) n \<longleftrightarrow> bit w n \<and> n = 19"
    by (simp only: bit_and_iff bit_push_bit_19)
  show "bit (w AND push_bit 19 1) n = bit (if bit w 19 then push_bit 19 1 else (0::32 word)) n"
  proof (cases "bit w 19")
    case True
    then have "bit (w AND push_bit 19 1) n \<longleftrightarrow> n = 19"
      using eq by blast
    also have "\<dots> \<longleftrightarrow> bit (push_bit 19 (1::32 word)) n"
      by (simp only: bit_push_bit_19)
    finally show ?thesis
      using True by simp
  next
    case False
    then have "\<not> bit (w AND push_bit 19 1) n"
      using eq by blast
    then show ?thesis
      using False by simp
  qed
qed

lemma and_FILE_READ_ONLY_VOLUME:
  "real (unat (w AND FILE_READ_ONLY_VOLUME)) = (if bit w 19 then 524288 else 0)"
  using and_push_bit_19 [of w] by (simp add: FILE_READ_ONLY_VOLUME_def)

lemma FormatUint_digit: "n < 10 \<Longrightarrow> FormatUint n = [digits ! n]"
  by (simp add: FormatUint.simps)

lemma digitValue_digits: "k < 10 \<Longrightarrow> digitValue (digits ! k) = k"
proof -
  assume "k < 10"
  then have "k = 0 \<or> k = 1 \<or> k = 2 \<or> k = 3 \<or> k = 4 \<or> k = 5 \<or> k = 6 \<or> k = 7 \<or> k = 8 \<or> k = 9"
    by arith
  then show ?thesis
    by (elim disjE) (simp_all add: digits_def)
qed

lemma foldl_FormatUint:
  "foldl (\<lambda>a c. 10 * a + digitValue c) 0 (FormatUint n) = n"
proof (induction n rule: FormatUint.induct)
  case (1 n)
  show ?case
  proof (cases "n < 10")
    case True
    then show ?thesis
      by (subst FormatUint.simps) (simp add: digitValue_digits del: digitValue.simps)
  next
    case False
    with 1 show ?thesis
      by (subst FormatUint.simps) (simp add: digitValue_digits del: digitValue.simps)
  qed
qed

lemma inj_FormatUint: "inj FormatUint"
  by (rule inj_on_inverseI [where g = "foldl (\<lambda>a c. 10 * a + digitValue c) 0"])
    (rule foldl_FormatUint)

lemma length_distinct_FormatUint:
  "length (sorted_list_of_set (set (map FormatUint ns))) = card (set ns)"
proof -
  have "card (FormatUint ` set ns) = card (set ns)"
    by (rule card_image) (rule inj_on_subset [OF inj_FormatUint subset_UNIV])
  then show ?thesis by simp
qed

section \<open>\<^verbatim>\<open>getVolumeInfo\<close>: how it runs\<close>

lemma diskIDAt_eq:
  "diskIDAt buf i =
     (if 8 + 24 * i + 4 \<le> length buf then Some (FormatUint (le32At buf (8 + 24 * i))) else None)"
proof (cases "8 + 24 * i + 4 \<le> length buf")
  case True
  then have "map_option unat (Uint32 (drop (8 + 24 * i) buf)) = Some (le32At buf (8 + 24 * i))"
    by (rule Uint32_drop)
  then obtain w where "Uint32 (drop (8 + 24 * i) buf) = Some w" "unat w = le32At buf (8 + 24 * i)"
    by auto
  with True show ?thesis
    by (simp add: diskIDAt_def sliceFrom_def diskExtentSize_def mult.commute)
next
  case False
  then show ?thesis
    by (auto simp: diskIDAt_def sliceFrom_def diskExtentSize_def Uint32_def mult.commute)
qed

lemma collectDiskIDs_eq:
  assumes "\<forall>i\<in>set ns. 8 + 24 * i + 4 \<le> length buf"
  shows "collectDiskIDs buf ns = Some (map (\<lambda>i. FormatUint (le32At buf (8 + 24 * i))) ns)"
  using assms by (induction ns) (simp_all add: diskIDAt_eq)

lemma length_volumeDiskExtents: "length (volumeDiskExtents written) = 16384"
  by (simp add: volumeDiskExtents_def)

lemma volumeDiskExtents_nth:
  assumes "i < length written" and "length written \<le> 16384"
  shows "volumeDiskExtents written ! i = written ! i"
  using assms by (simp add: volumeDiskExtents_def nth_append)

lemma collectDiskIDs_volumeDiskExtents:
  assumes "n \<le> 683"
  shows "collectDiskIDs (volumeDiskExtents written) [0..<n]
           = Some (map FormatUint (diskNumbers (volumeDiskExtents written) n))"
proof -
  have "\<forall>i\<in>set [0..<n]. 8 + 24 * i + 4 \<le> length (volumeDiskExtents written)"
    using assms by (auto simp: length_volumeDiskExtents)
  then show ?thesis
    by (simp add: collectDiskIDs_eq diskNumbers_def comp_def)
qed

lemma StringToUTF16Ptr_root:
  assumes "CHR 0x00 \<notin> set vp"
  shows "StringToUTF16Ptr (volumeInformationRootDrive vp) = Some (volumeInformationRootDrive vp)"
    and "StringToUTF16Ptr (devicePrefix @ vp) = Some (devicePrefix @ vp)"
  using assms
  by (simp_all add: StringToUTF16Ptr_def volumeInformationRootDrive_def guidPrefix_def
      devicePrefix_def backslash_def)

lemma extentsQuery_count:
  assumes "os_DeviceIoControl sys h = Inr written"
  shows "extentsQuery sys rootDrive vp h =
     (let buf = volumeDiskExtents written; n = le32At buf 0 in
      if n < 1
      then (Return (volumeInfo_zero,
              Some (Errorf (''could not identify physical drive for '' @ rootDrive
                              @ '': no disk IDs returned'') None)),
            [CallDeviceIoControl h])
      else (case collectDiskIDs buf [0..<n] of
              None \<Rightarrow> (Panic ''slice bounds out of range'', [CallDeviceIoControl h])
            | Some ids \<Rightarrow>
                (fst (volumeQuery sys vp (slices_Compact (slices_Sort ids))),
                 CallDeviceIoControl h # snd (volumeQuery sys vp (slices_Compact (slices_Sort ids))))))"
proof -
  have "map_option unat (Uint32 (drop 0 (volumeDiskExtents written)))
          = Some (le32At (volumeDiskExtents written) 0)"
    by (rule Uint32_drop) (simp add: length_volumeDiskExtents)
  then obtain w where "Uint32 (volumeDiskExtents written) = Some w"
    "unat w = le32At (volumeDiskExtents written) 0"
    by auto
  with assms show ?thesis
    by (simp add: extentsQuery_def Let_def split: prod.split option.split)
qed

lemma getVolumeInfo_opened:
  assumes "CHR 0x00 \<notin> set (volumePath volumes rootDrive)"
    and "os_CreateFile sys (devicePrefix @ volumePath volumes rootDrive) = Inr h"
  shows "getVolumeInfo sys volumes rootDrive =
     (fst (extentsQuery sys rootDrive (volumePath volumes rootDrive) h),
      CallCreateFile (devicePrefix @ volumePath volumes rootDrive)
        # snd (extentsQuery sys rootDrive (volumePath volumes rootDrive) h) @ [CallClose h])"
  using assms
  by (simp add: getVolumeInfo_def StringToUTF16Ptr_root Let_def split: prod.split)

lemma volumeQuery_eq:
  assumes "CHR 0x00 \<notin> set vp"
  shows "volumeQuery sys vp ids =
     (let root = volumeInformationRootDrive vp; driveType = os_GetDriveType sys root in
      (case os_GetVolumeInformation sys root of
         Inl err \<Rightarrow>
           if driveType = DRIVE_CDROM \<or> driveType = DRIVE_REMOVABLE
           then Return (volumeInfo_zero, None)
           else Return (volumeInfo_zero,
                  Some (Errorf (''could not get volume information for '' @ root @ '': '')
                          (Some err)))
       | Inr vi \<Rightarrow>
           Return
             (\<lparr>diskIDs = strings_Join ids '';'',
               filesystem = volBufType vi,
               serialNumber = FormatHex (unat (volSerialNum vi)),
               label = volBufLabel vi,
               volumeType = getDriveType driveType,
               readonly = real (unat (fsFlags vi AND FILE_READ_ONLY_VOLUME))\<rparr>,
              None),
       [CallGetDriveType root, CallGetVolumeInformation root]))"
  using assms
  by (simp add: volumeQuery_def StringToUTF16Ptr_root Let_def split: sum.split)

lemma getVolumeInfo_queried:
  assumes "CHR 0x00 \<notin> set (volumePath volumes rootDrive)"
    and "os_CreateFile sys (devicePrefix @ volumePath volumes rootDrive) = Inr h"
    and "os_DeviceIoControl sys h = Inr written"
    and "1 \<le> le32At (volumeDiskExtents written) 0"
    and "le32At (volumeDiskExtents written) 0 \<le> 683"
  defines "ids \<equiv> slices_Compact (slices_Sort (map FormatUint
             (diskNumbers (volumeDiskExtents written) (le32At (volumeDiskExtents written) 0))))"
  shows "getVolumeInfo sys volumes rootDrive =
     (fst (volumeQuery sys (volumePath volumes rootDrive) ids),
      CallCreateFile (devicePrefix @ volumePath volumes rootDrive) # CallDeviceIoControl h
        # snd (volumeQuery sys (volumePath volumes rootDrive) ids) @ [CallClose h])"
  using assms(1-5) unfolding ids_def
  by (simp add: getVolumeInfo_opened extentsQuery_count collectDiskIDs_volumeDiskExtents Let_def)

lemma getVolumeInfo_resolved:
  assumes "CHR 0x00 \<notin> set (volumePath volumes rootDrive)"
    and "os_CreateFile sys (devicePrefix @ volumePath volumes rootDrive) = Inr h"
    and "os_DeviceIoControl sys h = Inr written"
    and "1 \<le> le32At (volumeDiskExtents written) 0"
    and "le32At (volumeDiskExtents written) 0 \<le> 683"
    and "os_GetVolumeInformation sys (volumeInformationRootDrive (volumePath volumes rootDrive))
           = Inr vi"
  shows "fst (getVolumeInfo sys volumes rootDrive) =
     Return
       (\<lparr>diskIDs = strings_Join (slices_Compact (slices_Sort (map FormatUint
            (diskNumbers (volumeDiskExtents written) (le32At (volumeDiskExtents written) 0)))))
            '';'',
         filesystem = volBufType vi,
         serialNumber = FormatHex (unat (volSerialNum vi)),
         label = volBufLabel vi,
         volumeType = getDriveType (os_GetDriveType sys
           (volumeInformationRootDrive (volumePath volumes rootDrive))),
         readonly = real (unat (fsFlags vi AND FILE_READ_ONLY_VOLUME))\<rparr>,
        None)"
  using assms
  by (simp add: getVolumeInfo_queried volumeQuery_eq Let_def)

lemma getVolumeInfo_calls:
  assumes "CHR 0x00 \<notin> set (volumePath volumes rootDrive)"
    and "os_CreateFile sys (devicePrefix @ volumePath volumes rootDrive) = Inr h"
    and "os_DeviceIoControl sys h = Inr written"
    and "1 \<le> le32At (volumeDiskExtents written) 0"
    and "le32At (volumeDiskExtents written) 0 \<le> 683"
  shows "snd (getVolumeInfo sys volumes rootDrive) =
     [CallCreateFile (devicePrefix @ volumePath volumes rootDrive),
      CallDeviceIoControl h,
      CallGetDriveType (volumeInformationRootDrive (volumePath volumes rootDrive)),
      CallGetVolumeInformation (volumeInformationRootDrive (volumePath volumes rootDrive)),
      CallClose h]"
  using assms
  by (simp add: getVolumeInfo_queried volumeQuery_eq Let_def)

lemma getVolumeInfo_information_failed:
  assumes "CHR 0x00 \<notin> set (volumePath volumes rootDrive)"
    and "os_CreateFile sys (devicePrefix @ volumePath volumes rootDrive) = Inr h"
    and "os_DeviceIoControl sys h = Inr written"
    and "1 \<le> le32At (volumeDiskExtents written) 0"
    and "le32At (volumeDiskExtents written) 0 \<le> 683"
    and "os_GetVolumeInformation sys (volumeInformationRootDrive (volumePath volumes rootDrive))
           = Inl e"
  shows "fst (getVolumeInfo sys volumes rootDrive) =
     (if os_GetDriveType sys (volumeInformationRootDrive (volumePath volumes rootDrive)) = DRIVE_CDROM
         \<or> os_GetDriveType sys (volumeInformationRootDrive (volumePath volumes rootDrive))
             = DRIVE_REMOVABLE
      then Return (volumeInfo_zero, None)
      else Return (volumeInfo_zero,
             Some (Errorf (''could not get volume information for ''
                     @ volumeInformationRootDrive (volumePath volumes rootDrive) @ '': '')
                     (Some e))))"
  using assms
  by (simp add: getVolumeInfo_queried volumeQuery_eq Let_def)

text \<open>Outside these conditions the function panics.\<close>

lemma collectDiskIDs_None:
  assumes "i \<in> set ns" and "\<not> 8 + 24 * i + 4 \<le> length buf"
  shows "collectDiskIDs buf ns = None"
  using assms by (induction ns) (auto simp: diskIDAt_eq split: option.splits)

lemma getVolumeInfo_too_many_extents:
  assumes "CHR 0x00 \<notin> set (volumePath volumes rootDrive)"
    and "os_CreateFile sys (devicePrefix @ volumePath volumes rootDrive) = Inr h"
    and "os_DeviceIoControl sys h = Inr written"
    and "683 < le32At (volumeDiskExtents written) 0"
  shows "getVolumeInfo sys volumes rootDrive =
     (Panic ''slice bounds out of range'',
      [CallCreateFile (devicePrefix @ volumePath volumes rootDrive), CallDeviceIoControl h,
       CallClose h])"
proof -
  have "683 \<in> set [0..<le32At (volumeDiskExtents written) 0]"
    using assms(4) by simp
  then have "collectDiskIDs (volumeDiskExtents written) [0..<le32At (volumeDiskExtents written) 0]
      = None"
    by (rule collectDiskIDs_None) (simp add: length_volumeDiskExtents)
  with assms show ?thesis
    by (simp add: getVolumeInfo_opened extentsQuery_count Let_def)
qed

lemma getVolumeInfo_NUL:
  assumes "CHR 0x00 \<in> set (volumePath volumes rootDrive)"
  shows "getVolumeInfo sys volumes rootDrive =
     (Panic ''StringToUTF16Ptr: string with NUL passed'', [])"
  using assms by (simp add: getVolumeInfo_def StringToUTF16Ptr_def)

lemma volumePath_guid:
  "volumePath [rootDrive \<mapsto> guidPrefix @ rest] rootDrive = rest"
  by (simp add: volumePath_def strings_CutPrefix_def)

lemma root_Volume_abc:
  "volumeInformationRootDrive ''Volume{abc}'' = guidPrefix @ ''Volume{abc}'' @ [backslash]"
  "volumeInformationRootDrive (''Volume{abc}'' @ [backslash])
     = guidPrefix @ ''Volume{abc}'' @ [backslash, backslash]"
  by (simp_all add: volumeInformationRootDrive_def)

subsection \<open>The example inputs, evaluated\<close>

lemma upt_0_4: "[0..<4] = [0, 1, 2, 3]"
  by code_simp

lemma upt_0_2: "[0..<2] = [0, 1]"
  by code_simp

lemma example_path: "CHR 0x00 \<notin> set (volumePath Map.empty ''C:'')"
  by (simp add: volumePath_def)

lemma example_root: "volumeInformationRootDrive (volumePath Map.empty ''C:'') = ''C:'' @ [backslash]"
  by (simp add: volumeInformationRootDrive_def volumePath_def)

lemma example_os_simps:
  "os_CreateFile (example_os written t info) p = Inr 7"
  "os_DeviceIoControl (example_os written t info) k = Inr written"
  "os_GetDriveType (example_os written t info) p = t"
  "os_GetVolumeInformation (example_os written t info) p = info"
  by (simp_all add: example_os_def)

lemma example_information_simps:
  "os_GetVolumeInformation (example_os written t (Inr example_information)) p
     = Inr example_information"
  "volBufLabel example_information = ''System''"
  "volBufType example_information = ''NTFS''"
  "unat (volSerialNum example_information) = 12648430"
  "fsFlags example_information = 0x00080003"
  by (simp_all add: example_os_def example_information_def)

lemma example_serial: "FormatHex 12648430 = ''C0FFEE''"
  by (simp add: FormatHex.simps digits_def)

lemma example_count_0: "le32At (volumeDiskExtents (extentsBuffer [])) 0 = 0"
  by (simp add: le32At_def volumeDiskExtents_nth extentsBuffer_def)

lemma example_count_4: "le32At (volumeDiskExtents (extentsBuffer [5, 3, 3, 9])) 0 = 4"
  by (simp add: le32At_def volumeDiskExtents_nth extentsBuffer_def extentRecord_def)

lemma example_numbers_4:
  "diskNumbers (volumeDiskExtents (extentsBuffer [5, 3, 3, 9])) 4 = [5, 3, 3, 9]"
  by (simp add: diskNumbers_def upt_0_4 upt_0_2 le32At_def volumeDiskExtents_nth extentsBuffer_def
      extentRecord_def nth_append)

lemma example_ids_4: "sorted_list_of_set (set (map FormatUint [5, 3, 3, 9])) = [''3'', ''5'', ''9'']"
  by code_simp

lemma example_count_2: "le32At (volumeDiskExtents (extentsBuffer [10, 9])) 0 = 2"
  by (simp add: le32At_def volumeDiskExtents_nth extentsBuffer_def extentRecord_def)

lemma example_numbers_2:
  "diskNumbers (volumeDiskExtents (extentsBuffer [10, 9])) 2 = [10, 9]"
  by (simp add: diskNumbers_def upt_0_4 upt_0_2 le32At_def volumeDiskExtents_nth extentsBuffer_def
      extentRecord_def nth_append)

lemma example_ids_2: "slices_Compact (slices_Sort (map FormatUint [10, 9])) = [''10'', ''9'']"
  by code_simp

lemma example_claimed_2:
  "strings_Join (map FormatUint (sorted_list_of_set (set [10, 9]))) '';'' = ''9;10''"
  by code_simp

section \<open>\<^verbatim>\<open>getVolumeInfo\<close>: the claims\<close>

text \<open>
  C1 (as amended). When the volume is opened, the extent query answers with a count \<open>n\<close>
  from 1 to 683 (the extents that fit the 16 KiB buffer) and the volume information is
  read, the field \<open>diskIDs\<close> is the list of the distinct decimal texts of the \<open>n\<close> disk
  numbers, in ascending order of the texts as strings (byte by byte), joined with \<open>;\<close>.
  For the disk numbers 5, 3, 3, 9 it is \<open>3;5;9\<close>. The order is not the order of the
  numbers: for 10 and 9 it is \<open>10;9\<close>.
\<close>

theorem getVolumeInfo_diskIDs:
  assumes "CHR 0x00 \<notin> set (volumePath volumes rootDrive)"
    and "os_CreateFile sys (devicePrefix @ volumePath volumes rootDrive) = Inr h"
    and "os_DeviceIoControl sys h = Inr written"
    and "1 \<le> le32At (volumeDiskExtents written) 0"
    and "le32At (volumeDiskExtents written) 0 \<le> 683"
    and "os_GetVolumeInformation sys (volumeInformationRootDrive (volumePath volumes rootDrive))
           = Inr vi"
  shows "fst (getVolumeInfo sys volumes rootDrive) =
     Return
       (\<lparr>diskIDs = strings_Join (sorted_list_of_set (set (map FormatUint
            (diskNumbers (volumeDiskExtents written) (le32At (volumeDiskExtents written) 0)))))
            '';'',
         filesystem = volBufType vi,
         serialNumber = FormatHex (unat (volSerialNum vi)),
         label = volBufLabel vi,
         volumeType = getDriveType (os_GetDriveType sys
           (volumeInformationRootDrive (volumePath volumes rootDrive))),
         readonly = real (unat (fsFlags vi AND FILE_READ_ONLY_VOLUME))\<rparr>,
        None)"
  using getVolumeInfo_resolved [OF assms]
  by (simp only: slices_Compact_Sort)

theorem getVolumeInfo_diskIDs_witness:
  "fst (getVolumeInfo (example_os (extentsBuffer [5, 3, 3, 9]) DRIVE_FIXED (Inr example_information))
          Map.empty ''C:'') =
     Return
       (\<lparr>diskIDs = ''3;5;9'', filesystem = ''NTFS'', serialNumber = ''C0FFEE'',
         label = ''System'', volumeType = ''fixed'', readonly = 524288\<rparr>, None)"
proof -
  have "1 \<le> le32At (volumeDiskExtents (extentsBuffer [5, 3, 3, 9])) 0"
    and "le32At (volumeDiskExtents (extentsBuffer [5, 3, 3, 9])) 0 \<le> 683"
    by (simp_all add: example_count_4)
  note r = getVolumeInfo_diskIDs [of Map.empty "''C:''"
      "example_os (extentsBuffer [5, 3, 3, 9]) DRIVE_FIXED (Inr example_information)" 7
      "extentsBuffer [5, 3, 3, 9]" example_information,
      OF example_path example_os_simps(1) example_os_simps(2) this example_os_simps(4)]
  note r' = r [unfolded example_count_4 example_numbers_4 example_ids_4 example_os_simps
      example_information_simps example_serial]
  then show ?thesis
    by (simp add: DRIVE_FIXED_def DRIVE_UNKNOWN_def DRIVE_NO_ROOT_DIR_def
      DRIVE_REMOVABLE_def FILE_READ_ONLY_VOLUME_def)
qed

text \<open>
  The claim C1 as stated, with the numbers in ascending order, fails for the disk
  numbers 10 and 9: the field is \<open>10;9\<close>, the sorted numbers give \<open>9;10\<close>.
\<close>

theorem getVolumeInfo_diskIDs_counterexample:
  "fst (getVolumeInfo (example_os (extentsBuffer [10, 9]) DRIVE_FIXED (Inr example_information))
          Map.empty ''C:'') =
     Return
       (\<lparr>diskIDs = ''10;9'', filesystem = ''NTFS'', serialNumber = ''C0FFEE'',
         label = ''System'', volumeType = ''fixed'', readonly = 524288\<rparr>, None)
   \<and> diskNumbers (volumeDiskExtents (extentsBuffer [10, 9])) 2 = [10, 9]
   \<and> strings_Join (map FormatUint (sorted_list_of_set (set [10, 9]))) '';'' = ''9;10''"
proof -
  have "1 \<le> le32At (volumeDiskExtents (extentsBuffer [10, 9])) 0"
    and "le32At (volumeDiskExtents (extentsBuffer [10, 9])) 0 \<le> 683"
    by (simp_all add: example_count_2)
  note r = getVolumeInfo_resolved [of Map.empty "''C:''"
      "example_os (extentsBuffer [10, 9]) DRIVE_FIXED (Inr example_information)" 7
      "extentsBuffer [10, 9]" example_information,
      OF example_path example_os_simps(1) example_os_simps(2) this example_os_simps(4)]
  note r' = r [unfolded example_count_2 example_numbers_2 example_ids_2 example_os_simps
      example_information_simps example_serial]
  then have "fst (getVolumeInfo
          (example_os (extentsBuffer [10, 9]) DRIVE_FIXED (Inr example_information))
          Map.empty ''C:'') =
     Return
       (\<lparr>diskIDs = ''10;9'', filesystem = ''NTFS'', serialNumber = ''C0FFEE'',
         label = ''System'', volumeType = ''fixed'', readonly = 524288\<rparr>, None)"
    by (simp add: DRIVE_FIXED_def DRIVE_UNKNOWN_def DRIVE_NO_ROOT_DIR_def DRIVE_REMOVABLE_def
        FILE_READ_ONLY_VOLUME_def)
  with example_numbers_2 example_claimed_2 show ?thesis
    by (intro conjI)
qed

text \<open>
  C2 (as amended). The disk number of extent \<open>i\<close> (counted from 0) is the little-endian
  32-bit number in the four bytes from offset \<open>8 + 24 * i\<close> of the buffer: the records
  of 24 bytes start at offset 8, and the disk number is at the start of its record.
\<close>

theorem diskIDAt_offset:
  assumes "8 + 24 * i + 4 \<le> length buf"
  shows "diskIDAt buf i = Some (FormatUint (le32At buf (8 + 24 * i)))"
  using assms by (simp add: diskIDAt_eq)

theorem diskIDAt_offset_witness:
  "diskIDAt [1, 0, 0, 0, 0, 0, 0, 0, 7, 0, 0, 0, 9, 0, 0, 0] 0 = Some ''7''"
  using diskIDAt_offset [of 0 "[1, 0, 0, 0, 0, 0, 0, 0, 7, 0, 0, 0, 9, 0, 0, 0]"]
  by (simp add: le32At_def FormatUint_digit digits_def)

text \<open>
  The claim C2 as stated has the offset \<open>4 + 24 * i + 8\<close>. In this buffer the bytes
  from offset 8 hold 7 and the bytes from offset 12 hold 9; the parser reads 7.
\<close>

theorem diskIDAt_offset_counterexample:
  "diskIDAt [1, 0, 0, 0, 0, 0, 0, 0, 7, 0, 0, 0, 9, 0, 0, 0] 0 = Some ''7''
   \<and> FormatUint (le32At [1, 0, 0, 0, 0, 0, 0, 0, 7, 0, 0, 0, 9, 0, 0, 0] (4 + 24 * 0 + 8)) = ''9''"
  by (simp add: diskIDAt_eq le32At_def FormatUint_digit digits_def)

text \<open>
  C3. When the volume is opened and the extent query answers with a buffer whose count
  (the little-endian number in its first four bytes) is zero, \<^verbatim>\<open>getVolumeInfo\<close> returns
  the zero \<^verbatim>\<open>volumeInfo\<close> with an error whose text contains \<open>no disk IDs returned\<close>.
\<close>

theorem getVolumeInfo_no_extents:
  assumes "CHR 0x00 \<notin> set (volumePath volumes rootDrive)"
    and "os_CreateFile sys (devicePrefix @ volumePath volumes rootDrive) = Inr h"
    and "os_DeviceIoControl sys h = Inr written"
    and "le32At (volumeDiskExtents written) 0 = 0"
  shows "fst (getVolumeInfo sys volumes rootDrive) =
           Return (volumeInfo_zero,
             Some (Errorf (''could not identify physical drive for '' @ rootDrive
                             @ '': no disk IDs returned'') None))
       \<and> strings_Contains
           (Error (Errorf (''could not identify physical drive for '' @ rootDrive
                             @ '': no disk IDs returned'') None))
           ''no disk IDs returned''"
proof -
  have "strings_Contains
          ((''could not identify physical drive for '' @ rootDrive @ '': '')
             @ ''no disk IDs returned'' @ []) ''no disk IDs returned''"
    by (rule strings_Contains_append)
  with assms show ?thesis
    by (simp add: getVolumeInfo_opened extentsQuery_count)
qed

theorem getVolumeInfo_no_extents_witness:
  "fst (getVolumeInfo (example_os (extentsBuffer []) DRIVE_FIXED (Inr example_information))
          Map.empty ''C:'') =
     Return (volumeInfo_zero,
       Some (Errorf ''could not identify physical drive for C:: no disk IDs returned'' None))"
  using getVolumeInfo_no_extents [of Map.empty "''C:''"
      "example_os (extentsBuffer []) DRIVE_FIXED (Inr example_information)" 7 "extentsBuffer []"]
    example_path example_count_0
  by (simp add: example_os_def volumePath_def)

text \<open>
  C4. When the query for the volume information fails: for the drive types CD-ROM and
  removable \<^verbatim>\<open>getVolumeInfo\<close> returns the zero \<^verbatim>\<open>volumeInfo\<close> and no error; for any
  other drive type it returns an error whose text contains the root path.
\<close>

theorem getVolumeInfo_information_failure:
  assumes "CHR 0x00 \<notin> set (volumePath volumes rootDrive)"
    and "os_CreateFile sys (devicePrefix @ volumePath volumes rootDrive) = Inr h"
    and "os_DeviceIoControl sys h = Inr written"
    and "1 \<le> le32At (volumeDiskExtents written) 0"
    and "le32At (volumeDiskExtents written) 0 \<le> 683"
    and "os_GetVolumeInformation sys (volumeInformationRootDrive (volumePath volumes rootDrive))
           = Inl e"
  shows "(os_GetDriveType sys (volumeInformationRootDrive (volumePath volumes rootDrive))
            \<in> {DRIVE_CDROM, DRIVE_REMOVABLE} \<longrightarrow>
           fst (getVolumeInfo sys volumes rootDrive) = Return (volumeInfo_zero, None))
       \<and> (os_GetDriveType sys (volumeInformationRootDrive (volumePath volumes rootDrive))
            \<notin> {DRIVE_CDROM, DRIVE_REMOVABLE} \<longrightarrow>
           fst (getVolumeInfo sys volumes rootDrive) =
             Return (volumeInfo_zero,
               Some (Errorf (''could not get volume information for ''
                       @ volumeInformationRootDrive (volumePath volumes rootDrive) @ '': '')
                       (Some e)))
           \<and> strings_Contains
               (Error (Errorf (''could not get volume information for ''
                       @ volumeInformationRootDrive (volumePath volumes rootDrive) @ '': '')
                       (Some e)))
               (volumeInformationRootDrive (volumePath volumes rootDrive)))"
proof -
  have "strings_Contains
          (''could not get volume information for ''
             @ volumeInformationRootDrive (volumePath volumes rootDrive) @ ('': '' @ Error e))
          (volumeInformationRootDrive (volumePath volumes rootDrive))"
    by (rule strings_Contains_append)
  then show ?thesis
    using getVolumeInfo_information_failed [OF assms] by simp
qed

theorem getVolumeInfo_information_failure_witness:
  "fst (getVolumeInfo
          (example_os (extentsBuffer [5, 3, 3, 9]) DRIVE_CDROM
             (Inl (Errno 21 ''The device is not ready.'')))
          Map.empty ''C:'') = Return (volumeInfo_zero, None)
   \<and> fst (getVolumeInfo
          (example_os (extentsBuffer [5, 3, 3, 9]) DRIVE_FIXED
             (Inl (Errno 21 ''The device is not ready.'')))
          Map.empty ''C:'') =
       Return (volumeInfo_zero,
         Some (Errorf (''could not get volume information for C:'' @ [backslash] @ '': '')
                 (Some (Errno 21 ''The device is not ready.''))))"
proof -
  have c: "1 \<le> le32At (volumeDiskExtents (extentsBuffer [5, 3, 3, 9])) 0"
    "le32At (volumeDiskExtents (extentsBuffer [5, 3, 3, 9])) 0 \<le> 683"
    by (simp_all add: example_count_4)
  note r1 = getVolumeInfo_information_failure [of Map.empty "''C:''"
      "example_os (extentsBuffer [5, 3, 3, 9]) DRIVE_CDROM
         (Inl (Errno 21 ''The device is not ready.''))" 7
      "extentsBuffer [5, 3, 3, 9]" "Errno 21 ''The device is not ready.''",
      OF example_path example_os_simps(1) example_os_simps(2) c example_os_simps(4)]
  note r2 = getVolumeInfo_information_failure [of Map.empty "''C:''"
      "example_os (extentsBuffer [5, 3, 3, 9]) DRIVE_FIXED
         (Inl (Errno 21 ''The device is not ready.''))" 7
      "extentsBuffer [5, 3, 3, 9]" "Errno 21 ''The device is not ready.''",
      OF example_path example_os_simps(1) example_os_simps(2) c example_os_simps(4)]
  from r1 r2 show ?thesis
    by (simp add: example_os_simps example_root DRIVE_CDROM_def DRIVE_FIXED_def
        DRIVE_REMOVABLE_def)
qed

text \<open>
  C6 (as amended). With the mount map that sends \<open>C:\<close> to the GUID path
  \<^verbatim>\<open>\\?\Volume{abc}\<close> (stored without the last separator, as \<^verbatim>\<open>getAllMountedVolumes\<close>
  stores it) and the request \<open>C:\<close>, the drive type and the volume information are both
  queried, once each, for that GUID path followed by one separator.
\<close>

theorem getVolumeInfo_canonical_root:
  assumes "os_CreateFile sys (devicePrefix @ ''Volume{abc}'') = Inr h"
    and "os_DeviceIoControl sys h = Inr written"
    and "1 \<le> le32At (volumeDiskExtents written) 0"
    and "le32At (volumeDiskExtents written) 0 \<le> 683"
  shows "snd (getVolumeInfo sys [''C:'' \<mapsto> guidPrefix @ ''Volume{abc}''] ''C:'') =
     [CallCreateFile (devicePrefix @ ''Volume{abc}''),
      CallDeviceIoControl h,
      CallGetDriveType (guidPrefix @ ''Volume{abc}'' @ [backslash]),
      CallGetVolumeInformation (guidPrefix @ ''Volume{abc}'' @ [backslash]),
      CallClose h]"
proof -
  have p: "volumePath [''C:'' \<mapsto> guidPrefix @ ''Volume{abc}''] ''C:'' = ''Volume{abc}''"
    by (rule volumePath_guid)
  have n: "CHR 0x00 \<notin> set (volumePath [''C:'' \<mapsto> guidPrefix @ ''Volume{abc}''] ''C:'')"
    by (simp add: p)
  show ?thesis
    using getVolumeInfo_calls [OF n, of sys h written] assms
    by (simp only: p root_Volume_abc) 
qed

theorem getVolumeInfo_canonical_root_witness:
  "snd (getVolumeInfo (example_os (extentsBuffer [5, 3, 3, 9]) DRIVE_FIXED (Inr example_information))
     [''C:'' \<mapsto> guidPrefix @ ''Volume{abc}''] ''C:'') =
     [CallCreateFile (devicePrefix @ ''Volume{abc}''),
      CallDeviceIoControl 7,
      CallGetDriveType (guidPrefix @ ''Volume{abc}'' @ [backslash]),
      CallGetVolumeInformation (guidPrefix @ ''Volume{abc}'' @ [backslash]),
      CallClose 7]"
proof -
  have c: "1 \<le> le32At (volumeDiskExtents (extentsBuffer [5, 3, 3, 9])) 0"
    "le32At (volumeDiskExtents (extentsBuffer [5, 3, 3, 9])) 0 \<le> 683"
    by (simp_all add: example_count_4)
  show ?thesis
    by (rule getVolumeInfo_canonical_root [OF example_os_simps(1) example_os_simps(2) c])
qed

text \<open>
  The claim C6 as stated has the GUID path of the map end in a separator. The root path
  of both queries then ends in two separators.
\<close>

theorem getVolumeInfo_canonical_root_counterexample:
  "snd (getVolumeInfo (example_os (extentsBuffer [5, 3, 3, 9]) DRIVE_FIXED (Inr example_information))
     [''C:'' \<mapsto> guidPrefix @ ''Volume{abc}'' @ [backslash]] ''C:'') =
     [CallCreateFile (devicePrefix @ ''Volume{abc}'' @ [backslash]),
      CallDeviceIoControl 7,
      CallGetDriveType (guidPrefix @ ''Volume{abc}'' @ [backslash, backslash]),
      CallGetVolumeInformation (guidPrefix @ ''Volume{abc}'' @ [backslash, backslash]),
      CallClose 7]
   \<and> guidPrefix @ ''Volume{abc}'' @ [backslash, backslash] \<noteq> guidPrefix @ ''Volume{abc}'' @ [backslash]"
proof -
  have c: "1 \<le> le32At (volumeDiskExtents (extentsBuffer [5, 3, 3, 9])) 0"
    "le32At (volumeDiskExtents (extentsBuffer [5, 3, 3, 9])) 0 \<le> 683"
    by (simp_all add: example_count_4)
  have p: "volumePath [''C:'' \<mapsto> guidPrefix @ ''Volume{abc}'' @ [backslash]] ''C:''
             = ''Volume{abc}'' @ [backslash]"
    by (rule volumePath_guid)
  have n: "CHR 0x00 \<notin> set (volumePath [''C:'' \<mapsto> guidPrefix @ ''Volume{abc}'' @ [backslash]] ''C:'')"
    unfolding p by (simp add: backslash_def)
  have "snd (getVolumeInfo (example_os (extentsBuffer [5, 3, 3, 9]) DRIVE_FIXED (Inr example_information))
     [''C:'' \<mapsto> guidPrefix @ ''Volume{abc}'' @ [backslash]] ''C:'') =
     [CallCreateFile (devicePrefix @ ''Volume{abc}'' @ [backslash]),
      CallDeviceIoControl 7,
      CallGetDriveType (guidPrefix @ ''Volume{abc}'' @ [backslash, backslash]),
      CallGetVolumeInformation (guidPrefix @ ''Volume{abc}'' @ [backslash, backslash]),
      CallClose 7]"
    using getVolumeInfo_calls [OF n, of "example_os (extentsBuffer [5, 3, 3, 9]) DRIVE_FIXED (Inr example_information)" 7 "extentsBuffer [5, 3, 3, 9]"] c
    by (simp only: p root_Volume_abc example_os_simps)
  then show ?thesis by simp
qed

text \<open>
  C9. On success the field \<open>readonly\<close> is the number \<open>fsFlags & FILE_READ_ONLY_VOLUME\<close>:
  0 when bit 19 of the flags is clear, and 524288 (not 1) when it is set.
\<close>

theorem getVolumeInfo_readonly:
  assumes "CHR 0x00 \<notin> set (volumePath volumes rootDrive)"
    and "os_CreateFile sys (devicePrefix @ volumePath volumes rootDrive) = Inr h"
    and "os_DeviceIoControl sys h = Inr written"
    and "1 \<le> le32At (volumeDiskExtents written) 0"
    and "le32At (volumeDiskExtents written) 0 \<le> 683"
    and "os_GetVolumeInformation sys (volumeInformationRootDrive (volumePath volumes rootDrive))
           = Inr vi"
  shows "fst (getVolumeInfo sys volumes rootDrive) =
     Return
       (\<lparr>diskIDs = strings_Join (slices_Compact (slices_Sort (map FormatUint
            (diskNumbers (volumeDiskExtents written) (le32At (volumeDiskExtents written) 0)))))
            '';'',
         filesystem = volBufType vi,
         serialNumber = FormatHex (unat (volSerialNum vi)),
         label = volBufLabel vi,
         volumeType = getDriveType (os_GetDriveType sys
           (volumeInformationRootDrive (volumePath volumes rootDrive))),
         readonly = real (unat (fsFlags vi AND FILE_READ_ONLY_VOLUME))\<rparr>,
        None)
     \<and> real (unat (fsFlags vi AND FILE_READ_ONLY_VOLUME))
         = (if bit (fsFlags vi) 19 then 524288 else 0)"
  using getVolumeInfo_resolved [OF assms] and_FILE_READ_ONLY_VOLUME [of "fsFlags vi"]
  by simp

theorem getVolumeInfo_readonly_witness:
  "fst (getVolumeInfo (example_os (extentsBuffer [5, 3, 3, 9]) DRIVE_FIXED (Inr example_information))
          Map.empty ''C:'') =
     Return
       (\<lparr>diskIDs = ''3;5;9'', filesystem = ''NTFS'', serialNumber = ''C0FFEE'',
         label = ''System'', volumeType = ''fixed'', readonly = 524288\<rparr>, None)
   \<and> fst (getVolumeInfo
          (example_os (extentsBuffer [5, 3, 3, 9]) DRIVE_FIXED
             (Inr (example_information\<lparr>fsFlags := 3\<rparr>)))
          Map.empty ''C:'') =
     Return
       (\<lparr>diskIDs = ''3;5;9'', filesystem = ''NTFS'', serialNumber = ''C0FFEE'',
         label = ''System'', volumeType = ''fixed'', readonly = 0\<rparr>, None)"
proof -
  have c: "1 \<le> le32At (volumeDiskExtents (extentsBuffer [5, 3, 3, 9])) 0"
    "le32At (volumeDiskExtents (extentsBuffer [5, 3, 3, 9])) 0 \<le> 683"
    by (simp_all add: example_count_4)
  have ids: "slices_Compact (slices_Sort (map FormatUint [5, 3, 3, 9])) = [''3'', ''5'', ''9'']"
    by code_simp
  note r1 = getVolumeInfo_readonly [of Map.empty "''C:''"
      "example_os (extentsBuffer [5, 3, 3, 9]) DRIVE_FIXED (Inr example_information)" 7
      "extentsBuffer [5, 3, 3, 9]" example_information,
      OF example_path example_os_simps(1) example_os_simps(2) c example_os_simps(4)]
  note r2 = getVolumeInfo_readonly [of Map.empty "''C:''"
      "example_os (extentsBuffer [5, 3, 3, 9]) DRIVE_FIXED
         (Inr (example_information\<lparr>fsFlags := 3\<rparr>))" 7
      "extentsBuffer [5, 3, 3, 9]" "example_information\<lparr>fsFlags := 3\<rparr>",
      OF example_path example_os_simps(1) example_os_simps(2) c example_os_simps(4)]
  note r1' = r1 [unfolded example_count_4 example_numbers_4 ids example_os_simps]
  note r2' = r2 [unfolded example_count_4 example_numbers_4 ids example_os_simps]
  from r1' r2' show ?thesis
    by (simp add: example_information_def example_serial DRIVE_FIXED_def DRIVE_UNKNOWN_def
        DRIVE_NO_ROOT_DIR_def DRIVE_REMOVABLE_def)
qed

section \<open>Mount-point resolution\<close>

lemma errors_Is_unique: "errors_Is e a \<Longrightarrow> errors_Is e b \<Longrightarrow> a = b"
  by (induction e a rule: errors_Is.induct) auto


lemma resolveLoop_again:
  assumes "rootPathBuf \<noteq> []"
    and "reply_err (sys n (length rootPathBuf) rootPathBufLen) = Some e"
    and "errors_Is e ERROR_NO_MORE_FILES"
  shows "resolveLoop sys n rootPathBuf calls =
     resolveLoop sys (Suc n)
       (replicate (unat ((reply_len (sys n (length rootPathBuf) rootPathBufLen) + 1) div 2)) 0)
       (calls @ [\<lparr>call_capacity = length rootPathBuf, call_length = rootPathBufLen\<rparr>])"
proof -
  have "\<not> errors_Is e ERROR_FILE_NOT_FOUND"
  proof
    assume "errors_Is e ERROR_FILE_NOT_FOUND"
    from errors_Is_unique [OF this assms(3)] show False
      by (simp add: ERROR_NO_MORE_FILES_def ERROR_FILE_NOT_FOUND_def)
  qed
  with assms show ?thesis
    by (subst resolveLoop.simps) (simp add: Let_def)
qed

lemma resolveLoop_empty: "resolveLoop sys n [] calls = Some (IndexPanic, calls)"
  by (subst resolveLoop.simps) simp

lemma resolveMountPoints_empty_buffer:
  assumes "reply_err (sys 0 (MAX_PATH + 1) rootPathBufLen) = Some e"
    and "errors_Is e ERROR_NO_MORE_FILES"
    and "unat ((reply_len (sys 0 (MAX_PATH + 1) rootPathBufLen) + 1) div 2) = 0"
  shows "resolveMountPoints sys =
     Some (IndexPanic, [\<lparr>call_capacity = MAX_PATH + 1, call_length = rootPathBufLen\<rparr>])"
  unfolding resolveMountPoints_def
  using resolveLoop_again [of "replicate (MAX_PATH + 1) 0" sys 0 e "[]"] assms
  by (simp add: resolveLoop_empty)


lemma example_resize: "unat (((600 :: 32 word) + 1) div 2) = 300"
  by simp




section \<open>The BitLocker worker\<close>

text \<open>
  C7. A request whose path has no \<open>:\<close> is answered with the status \<open>-1\<close> and no
  error, and the shell is not called: neither for an item nor for a property. The worker
  loop sends this answer and goes on with the next event.
\<close>

theorem handleRequest_no_colon:
  assumes "CHR '':'' \<notin> set path"
  shows "handleRequest sh path = (\<lparr>res_err = None, res_status = - 1\<rparr>, [])
       \<and> workerLoop sh (Request path # evs) =
           (\<lparr>res_err = None, res_status = - 1\<rparr> # fst (workerLoop sh evs),
            snd (workerLoop sh evs))"
proof -
  from assms have "\<not> strings_Contains path '':''"
    by (simp add: strings_Contains_char)
  then have 1: "handleRequest sh path = (\<lparr>res_err = None, res_status = - 1\<rparr>, [])"
    by (simp add: handleRequest_def)
  have "workerLoop sh (Request path # evs) =
           (\<lparr>res_err = None, res_status = - 1\<rparr> # fst (workerLoop sh evs),
            snd (workerLoop sh evs))"
    by (simp add: 1 split: prod.split)
  with 1 show ?thesis by simp
qed

theorem handleRequest_no_colon_witness:
  "CHR '':'' \<notin> set ''HarddiskVolume1''
   \<and> handleRequest (example_shell (Inr 1) (Inr 1)) ''HarddiskVolume1''
       = (\<lparr>res_err = None, res_status = - 1\<rparr>, [])"
  using handleRequest_no_colon [of "''HarddiskVolume1''" "example_shell (Inr 1) (Inr 1)" "[]"]
  by simp

text \<open>
  C10. For a path with a \<open>:\<close>: when the shell item cannot be made, or the property
  cannot be read, the answer has the status \<open>-1\<close> and an error. An answer with a
  status that is not negative comes from a property that was read, and its error is what
  clearing the variant returned.
\<close>

theorem handleRequest_failure:
  assumes "CHR '':'' \<in> set path"
  shows "(sh_SHCreateItemFromParsingName sh path = Inl e \<longrightarrow>
           fst (handleRequest sh path) =
             \<lparr>res_err = Some (Errorf ''SHCreateItemFromParsingName failed: '' (Some e)),
              res_status = - 1\<rparr>)
       \<and> (sh_SHCreateItemFromParsingName sh path = Inr item \<and> sh_GetProperty sh item = Inl e \<longrightarrow>
           fst (handleRequest sh path) =
             \<lparr>res_err = Some (Errorf ''GetProperty failed: '' (Some e)), res_status = - 1\<rparr>)
       \<and> (0 \<le> res_status (fst (handleRequest sh path)) \<longrightarrow>
           (\<exists>i v. sh_SHCreateItemFromParsingName sh path = Inr i
              \<and> sh_GetProperty sh i = Inr v
              \<and> res_status (fst (handleRequest sh path)) = sint v
              \<and> res_err (fst (handleRequest sh path)) = sh_Clear sh v))"
  using assms
  by (auto simp: handleRequest_def queryStatus_def strings_Contains_char split: sum.splits)

theorem handleRequest_failure_witness:
  "CHR '':'' \<in> set ''C:''
   \<and> fst (handleRequest (example_shell (Inl (Errno 5 ''Access is denied.'')) (Inr 1)) ''C:'')
       = \<lparr>res_err = Some (Errorf ''SHCreateItemFromParsingName failed: ''
                           (Some (Errno 5 ''Access is denied.''))),
          res_status = - 1\<rparr>
   \<and> fst (handleRequest (example_shell (Inr 4) (Inl (Errno 5 ''Access is denied.''))) ''C:'')
       = \<lparr>res_err = Some (Errorf ''GetProperty failed: '' (Some (Errno 5 ''Access is denied.''))),
          res_status = - 1\<rparr>
   \<and> 0 \<le> res_status (fst (handleRequest (example_shell (Inr 4) (Inr 1)) ''C:''))
   \<and> res_err (fst (handleRequest (example_shell (Inr 4) (Inr 1)) ''C:'')) = None"
  using
    handleRequest_failure [of "''C:''" "example_shell (Inl (Errno 5 ''Access is denied.'')) (Inr 1)"
      "Errno 5 ''Access is denied.''" 4]
    handleRequest_failure [of "''C:''" "example_shell (Inr 4) (Inl (Errno 5 ''Access is denied.''))"
      "Errno 5 ''Access is denied.''" 4]
    handleRequest_failure [of "''C:''" "example_shell (Inr 4) (Inr 1)" "Errno 5 ''Access is denied.''" 4]
  by (simp add: example_shell_def handleRequest_def queryStatus_def)

section \<open>The BitLocker metrics\<close>

text \<open>
  C8. For each status from 0 to 8 (and no error), nine metrics are sent, one for each
  state in the order disabled, on, off, encrypting, decrypting, suspended, locked,
  unknown, waiting_for_activation; the metric at the index of the status has the value
  1, and the other eight have the value 0.
\<close>

theorem bitlockerMetrics_one_hot:
  assumes "s \<in> {0..8}"
  shows "map metric_value (bitlockerMetrics volume \<lparr>res_err = None, res_status = s\<rparr>)
           = (replicate 9 0)[nat s := 1]
       \<and> map metric_labels (bitlockerMetrics volume \<lparr>res_err = None, res_status = s\<rparr>)
           = map (\<lambda>state. [volume, state]) bitlockerStates
       \<and> count_list
           (map metric_value (bitlockerMetrics volume \<lparr>res_err = None, res_status = s\<rparr>)) 1 = 1
       \<and> count_list
           (map metric_value (bitlockerMetrics volume \<lparr>res_err = None, res_status = s\<rparr>)) 0 = 8"
proof -
  from assms
  have "s = 0 \<or> s = 1 \<or> s = 2 \<or> s = 3 \<or> s = 4 \<or> s = 5 \<or> s = 6 \<or> s = 7 \<or> s = 8"
    by auto
  then show ?thesis
    by (elim disjE)
      (simp_all add: bitlockerMetrics_def bitlockerStates_def, simp_all add: numeral_eq_Suc)
qed

theorem bitlockerMetrics_one_hot_witness:
  "(3::int) \<in> {0..8}
   \<and> map metric_value (bitlockerMetrics ''C:'' \<lparr>res_err = None, res_status = 3\<rparr>)
       = [0, 0, 0, 1, 0, 0, 0, 0, 0]"
  using bitlockerMetrics_one_hot [of 3 "''C:''"]
  by (simp add: numeral_eq_Suc)

end
